theory Spec2Isabelle
  imports Main
begin

section \<open>Python values and exceptions\<close>

text \<open>
  The exception classes that occur in \<^verbatim>\<open>simple_server.py\<close>, or that the library calls it
  makes can raise. \<open>KeyboardInterrupt\<close> and \<open>GeneratorExit\<close> derive from
  \<open>BaseException\<close> only; every other class listed derives from \<open>Exception\<close>
  (\<open>PlaywrightError\<close> is the \<open>Error\<close> of the browser-automation library).
  An exception value carries its class and the text \<open>str(e)\<close>.
\<close>

datatype exc_class =
  KeyboardInterrupt | GeneratorExit | OSError | OverflowError | RuntimeError | ValueError | TypeError
| PlaywrightError

datatype exc = Exc exc_class string

fun cls :: "exc \<Rightarrow> exc_class" where
  "cls (Exc c m) = c"

fun msg :: "exc \<Rightarrow> string" where
  "msg (Exc c m) = m"

fun is_Exception :: "exc_class \<Rightarrow> bool" where
  "is_Exception KeyboardInterrupt = False"
| "is_Exception GeneratorExit = False"
| "is_Exception c = True"

section \<open>Port selection: \<^verbatim>\<open>find_free_port\<close>\<close>

text \<open>
  \<^verbatim>\<open>
  def find_free_port(start_port=8080):
      port = start_port
      while port < start_port + 100:  # Try up to 100 ports
          try:
              with socket.socket(socket.AF_INET, socket.SOCK_STREAM) as s:
                  s.bind(('', port))
                  return port
          except OSError:
              port += 1
      raise RuntimeError("Could not find a free port")
  \<close>
  The body of the \<open>try\<close> (opening a socket and binding it to the port) is the probe of a
  port. Its outcome comes from the operating system, so it is a parameter
  \<open>probe :: int \<Rightarrow> exc option\<close>: \<open>None\<close> when the bind succeeds, \<open>Some e\<close> when the
  probe raises \<open>e\<close>. One search probes a port at most once, so a function of the port
  covers every sequence of outcomes. Only \<open>OSError\<close> is caught; any other exception
  leaves the function. The list of probed ports is threaded through the loop, in order.
\<close>

datatype ffp_error =
  NoFreePort        \<comment> \<open>\<open>raise RuntimeError("Could not find a free port")\<close>\<close>
| ProbeRaised exc   \<comment> \<open>an exception of the probe that \<open>except OSError\<close> does not catch\<close>

function find_free_port_loop ::
  "(int \<Rightarrow> exc option) \<Rightarrow> int \<Rightarrow> int \<Rightarrow> int list \<Rightarrow> (ffp_error + int) \<times> int list" where
  "find_free_port_loop probe start_port port probed =
     (if port < start_port + 100 then
        (case probe port of
           None \<Rightarrow> (Inr port, probed @ [port])
         | Some e \<Rightarrow>
             if cls e = OSError
             then find_free_port_loop probe start_port (port + 1) (probed @ [port])
             else (Inl (ProbeRaised e), probed @ [port]))
      else (Inl NoFreePort, probed))"
  by pat_completeness auto
termination
  by (relation "measure (\<lambda>(probe, start_port, port, probed). nat (start_port + 100 - port))") auto

definition find_free_port :: "(int \<Rightarrow> exc option) \<Rightarrow> int \<Rightarrow> (ffp_error + int) \<times> int list" where
  "find_free_port probe start_port = find_free_port_loop probe start_port start_port []"

fun raised :: "ffp_error \<Rightarrow> exc" where
  "raised NoFreePort = Exc RuntimeError ''Could not find a free port''"
| "raised (ProbeRaised e) = e"

text \<open>A probe failed the way the loop expects: it raised an \<open>OSError\<close>.\<close>

definition os_error :: "exc option \<Rightarrow> bool" where
  "os_error r = (case r of None \<Rightarrow> False | Some e \<Rightarrow> cls e = OSError)"

text \<open>
  In the words of the specification a port fails to bind when its probe does not succeed,
  whatever it raises; and all candidates fail when each of the 100 ports from the start
  does.
\<close>

definition bind_fails :: "exc option \<Rightarrow> bool" where
  "bind_fails r = (r \<noteq> None)"

definition all_candidates_fail :: "(int \<Rightarrow> exc option) \<Rightarrow> int \<Rightarrow> bool" where
  "all_candidates_fail probe s = list_all (\<lambda>q. bind_fails (probe q)) [s..s + 99]"

text \<open>
  A host on which every port is taken: binding a port from 0 to 65535 raises \<open>OSError\<close>
  (address already in use), and \<open>socket.bind\<close> refuses a number outside that range with
  \<open>OverflowError\<close>.
\<close>

definition busy_host :: "int \<Rightarrow> exc option" where
  "busy_host q =
     (if 0 \<le> q \<and> q \<le> 65535 then Some (Exc OSError ''[Errno 98] Address already in use'')
      else Some (Exc OverflowError ''bind(): port must be 0-65535.''))"


section \<open>Content types: \<^verbatim>\<open>CustomHTTPRequestHandler.guess_type\<close>\<close>

text \<open>
  The Python values that reach \<open>guess_type\<close>: \<open>None\<close>, a \<open>str\<close> and a tuple.
\<close>

datatype pyval = PNone | PStr string | PTuple "pyval list"

text \<open>
  Iterating a value, as the unpacking assignment \<open>a, b = v\<close> does: a tuple yields its
  items, a \<open>str\<close> its characters (each a \<open>str\<close> of length one), \<open>None\<close> is not
  iterable.
\<close>

fun py_iter :: "pyval \<Rightarrow> pyval list option" where
  "py_iter PNone = None"
| "py_iter (PStr s) = Some (map (\<lambda>c. PStr [c]) s)"
| "py_iter (PTuple xs) = Some xs"

text \<open>
  The assignment \<open>mimetype, encoding = v\<close>: it binds two names when \<open>v\<close> yields exactly
  two items, and raises otherwise.
\<close>

definition unpack2 :: "pyval \<Rightarrow> exc + (pyval \<times> pyval)" where
  "unpack2 v =
     (case py_iter v of
        None \<Rightarrow> Inl (Exc TypeError ''cannot unpack non-iterable NoneType object'')
      | Some [] \<Rightarrow> Inl (Exc ValueError ''not enough values to unpack (expected 2, got 0)'')
      | Some [a] \<Rightarrow> Inl (Exc ValueError ''not enough values to unpack (expected 2, got 1)'')
      | Some [a, b] \<Rightarrow> Inr (a, b)
      | Some (a # b # c # rest) \<Rightarrow> Inl (Exc ValueError ''too many values to unpack (expected 2)''))"

text \<open>\<open>path.endswith(suffix)\<close> on \<open>str\<close>.\<close>

definition endswith :: "string \<Rightarrow> string \<Rightarrow> bool" where
  "endswith s suffix =
     (length suffix \<le> length s \<and> drop (length s - length suffix) s = suffix)"

text \<open>
  \<^verbatim>\<open>
  def guess_type(self, path):
      mimetype, encoding = super().guess_type(path)
      if path.endswith('.tsx') or path.endswith('.ts'):
          return 'application/javascript', encoding
      elif path.endswith('.jsx') or path.endswith('.js'):
          return 'application/javascript', encoding
      elif path.endswith('.json'):
          return 'application/json', encoding
      elif path.endswith('.css'):
          return 'text/css', encoding
      elif path.endswith('.html'):
          return 'text/html', encoding
      elif path.endswith('.svg'):
          return 'image/svg+xml', encoding
      elif path.endswith('.ico'):
          return 'image/x-icon', encoding
      return mimetype, encoding
  \<close>
  The superclass is \<open>http.server.SimpleHTTPRequestHandler\<close>; its method is library code
  and enters as the parameter \<open>super_guess_type\<close>. The result is the pair the
  \<open>return\<close> statements build, or the exception of the unpacking in the first line.
\<close>

definition guess_type :: "(string \<Rightarrow> pyval) \<Rightarrow> string \<Rightarrow> exc + (pyval \<times> pyval)" where
  "guess_type super_guess_type path =
     (case unpack2 (super_guess_type path) of
        Inl e \<Rightarrow> Inl e
      | Inr (mimetype, encoding) \<Rightarrow>
          if endswith path ''.tsx'' \<or> endswith path ''.ts'' then
            Inr (PStr ''application/javascript'', encoding)
          else if endswith path ''.jsx'' \<or> endswith path ''.js'' then
            Inr (PStr ''application/javascript'', encoding)
          else if endswith path ''.json'' then Inr (PStr ''application/json'', encoding)
          else if endswith path ''.css'' then Inr (PStr ''text/css'', encoding)
          else if endswith path ''.html'' then Inr (PStr ''text/html'', encoding)
          else if endswith path ''.svg'' then Inr (PStr ''image/svg+xml'', encoding)
          else if endswith path ''.ico'' then Inr (PStr ''image/x-icon'', encoding)
          else Inr (mimetype, encoding))"

text \<open>
  The superclass method of the Python standard library,
  \<open>SimpleHTTPRequestHandler.guess_type\<close>: it looks the extension up in
  \<open>extensions_map\<close>, then its lower-case form, then asks \<open>mimetypes.guess_type\<close>, and
  falls back to \<open>application/octet-stream\<close>. Each of its \<open>return\<close> statements
  returns one \<open>str\<close> of the form type/subtype. The extension of a path
  (\<open>posixpath.splitext\<close>), the lower-casing and the \<open>mimetypes\<close> table are parameters.
\<close>

definition SimpleHTTPRequestHandler_guess_type ::
  "(string \<Rightarrow> string) \<Rightarrow> (string \<Rightarrow> string) \<Rightarrow> (string \<rightharpoonup> string) \<Rightarrow> (string \<rightharpoonup> string)
     \<Rightarrow> string \<Rightarrow> pyval" where
  "SimpleHTTPRequestHandler_guess_type splitext_ext lower extensions_map mimetypes_guess path =
     (let ext = splitext_ext path in
      case extensions_map ext of
        Some t \<Rightarrow> PStr t
      | None \<Rightarrow>
          (case extensions_map (lower ext) of
             Some t \<Rightarrow> PStr t
           | None \<Rightarrow>
               (case mimetypes_guess path of
                  Some guess \<Rightarrow> if guess \<noteq> [] then PStr guess else PStr ''application/octet-stream''
                | None \<Rightarrow> PStr ''application/octet-stream'')))"

section \<open>Request handling: \<^verbatim>\<open>CustomHTTPRequestHandler.do_GET\<close>\<close>

subsection \<open>The library's \<open>urlparse\<close>\<close>

text \<open>
  \<open>do_GET\<close> calls \<open>urllib.parse.urlparse\<close> of the Python standard library on the
  request target. The definitions below follow that function (CPython 3.11) on \<open>str\<close>
  input with the default arguments \<open>scheme=''\<close> and \<open>allow_fragments=True\<close>. The request
  target is decoded as ISO-8859-1, so each of its characters is one \<open>char\<close>. The two
  validations of a network location that \<open>urlsplit\<close> delegates
  (\<open>_check_bracketed_host\<close>, and the NFKC test of \<open>_checknetloc\<close> on a non-ASCII
  location) are parameters that give the message of the \<open>ValueError\<close>, if any.
\<close>

record ParseResult =
  url_scheme :: string
  url_netloc :: string
  url_path :: string
  url_params :: string
  url_query :: string
  url_fragment :: string

definition c0_control_or_space :: "char \<Rightarrow> bool" where
  "c0_control_or_space c = ((of_char c :: nat) \<le> 32)"

definition unsafe_url_byte :: "char \<Rightarrow> bool" where
  "unsafe_url_byte c = (c = CHR 0x09 \<or> c = CHR 0x0D \<or> c = CHR 0x0A)"

definition ascii_alpha :: "char \<Rightarrow> bool" where
  "ascii_alpha c =
     (let n = (of_char c :: nat) in (65 \<le> n \<and> n \<le> 90) \<or> (97 \<le> n \<and> n \<le> 122))"

definition scheme_char :: "char \<Rightarrow> bool" where
  "scheme_char c =
     (let n = (of_char c :: nat)
      in ascii_alpha c \<or> (48 \<le> n \<and> n \<le> 57) \<or> c = CHR ''+'' \<or> c = CHR ''-'' \<or> c = CHR ''.'')"

definition ascii_lower :: "char \<Rightarrow> char" where
  "ascii_lower c =
     (let n = (of_char c :: nat) in if 65 \<le> n \<and> n \<le> 90 then char_of (n + 32) else c)"

definition uses_params :: "string list" where
  "uses_params = ['''', ''ftp'', ''hdl'', ''prospero'', ''http'', ''imap'', ''https'', ''shttp'',
     ''rtsp'', ''rtsps'', ''rtspu'', ''sip'', ''sips'', ''mms'', ''sftp'', ''tel'']"

text \<open>\<open>s.split(c, 1)\<close> for a character \<open>c\<close> that occurs in \<open>s\<close>.\<close>

definition split1 :: "char \<Rightarrow> string \<Rightarrow> string \<times> string" where
  "split1 c s = (takeWhile (\<lambda>x. x \<noteq> c) s, tl (dropWhile (\<lambda>x. x \<noteq> c) s))"

text \<open>
  The scheme: with \<open>i = url.find(':')\<close>, if \<open>i > 0\<close>, the first character is an ASCII
  letter and every character in front of the colon is a scheme character, the scheme is that
  prefix in lower case and the URL continues after the colon.
\<close>

definition split_scheme :: "string \<Rightarrow> string \<times> string" where
  "split_scheme url =
     (if CHR '':'' \<in> set url then
        (let head = takeWhile (\<lambda>x. x \<noteq> CHR '':'') url
         in if head \<noteq> [] \<and> ascii_alpha (hd head) \<and> list_all scheme_char head
            then (map ascii_lower head, tl (dropWhile (\<lambda>x. x \<noteq> CHR '':'') url))
            else ('''', url))
      else ('''', url))"

text \<open>\<open>_splitnetloc(url, 2)\<close>: the location runs from index 2 to the first of \<open>/ ? #\<close>.\<close>

definition netloc_delim :: "char \<Rightarrow> bool" where
  "netloc_delim c = (c = CHR ''/'' \<or> c = CHR ''?'' \<or> c = CHR ''#'')"

definition splitnetloc :: "string \<Rightarrow> string \<times> string" where
  "splitnetloc url =
     (takeWhile (\<lambda>c. \<not> netloc_delim c) (drop 2 url),
      dropWhile (\<lambda>c. \<not> netloc_delim c) (drop 2 url))"

text \<open>\<open>netloc.partition('[')[2].partition(']')[0]\<close>.\<close>

definition bracketed_host :: "string \<Rightarrow> string" where
  "bracketed_host netloc =
     takeWhile (\<lambda>x. x \<noteq> CHR '']'') (tl (dropWhile (\<lambda>x. x \<noteq> CHR ''['') netloc))"

definition urlsplit ::
  "(string \<Rightarrow> string option) \<Rightarrow> (string \<Rightarrow> string option) \<Rightarrow> string
     \<Rightarrow> exc + (string \<times> string \<times> string \<times> string \<times> string)" where
  "urlsplit check_bracketed_host checknetloc_nfkc url0 =
     (let url1 = dropWhile c0_control_or_space url0;
          url2 = filter (\<lambda>c. \<not> unsafe_url_byte c) url1;
          (scheme, url3) = split_scheme url2;
          has_netloc = (take 2 url3 = ''//'');
          (netloc, url4) = (if has_netloc then splitnetloc url3 else ('''', url3));
          lb = (CHR ''['' \<in> set netloc);
          rb = (CHR '']'' \<in> set netloc)
      in if has_netloc \<and> ((lb \<and> \<not> rb) \<or> (rb \<and> \<not> lb)) then
           Inl (Exc ValueError ''Invalid IPv6 URL'')
         else
           (case (if has_netloc \<and> lb \<and> rb then check_bracketed_host (bracketed_host netloc)
                  else None) of
              Some m \<Rightarrow> Inl (Exc ValueError m)
            | None \<Rightarrow>
                (let (url5, fragment) =
                       (if CHR ''#'' \<in> set url4 then split1 (CHR ''#'') url4 else (url4, ''''));
                     (url6, query) =
                       (if CHR ''?'' \<in> set url5 then split1 (CHR ''?'') url5 else (url5, ''''))
                 in case (if netloc = [] \<or> list_all (\<lambda>c. (of_char c :: nat) < 128) netloc
                          then None else checknetloc_nfkc netloc) of
                      Some m \<Rightarrow> Inl (Exc ValueError m)
                    | None \<Rightarrow> Inr (scheme, netloc, url6, query, fragment))))"

text \<open>
  \<open>_splitparams(url)\<close>, called when the URL holds a semicolon: the parameters start at
  the first semicolon after the last slash.
\<close>

definition splitparams :: "string \<Rightarrow> string \<times> string" where
  "splitparams url =
     (if CHR ''/'' \<in> set url then
        (let last_seg = rev (takeWhile (\<lambda>x. x \<noteq> CHR ''/'') (rev url));
             upto_slash = take (length url - length last_seg) url
         in if CHR '';'' \<in> set last_seg
            then (upto_slash @ fst (split1 (CHR '';'') last_seg), snd (split1 (CHR '';'') last_seg))
            else (url, ''''))
      else split1 (CHR '';'') url)"

definition urlparse ::
  "(string \<Rightarrow> string option) \<Rightarrow> (string \<Rightarrow> string option) \<Rightarrow> string \<Rightarrow> exc + ParseResult" where
  "urlparse check_bracketed_host checknetloc_nfkc url =
     (case urlsplit check_bracketed_host checknetloc_nfkc url of
        Inl e \<Rightarrow> Inl e
      | Inr (scheme, netloc, url', query, fragment) \<Rightarrow>
          (let (url'', params) =
                 (if scheme \<in> set uses_params \<and> CHR '';'' \<in> set url' then splitparams url'
                  else (url', ''''))
           in Inr \<lparr>url_scheme = scheme, url_netloc = netloc, url_path = url'',
                    url_params = params, url_query = query, url_fragment = fragment\<rparr>))"

subsection \<open>The handler\<close>

text \<open>
  What a handler does to answer a request: the calls it makes on itself, in order.
\<close>

datatype action =
  send_response int
| send_header string string
| end_headers

text \<open>
  \<^verbatim>\<open>
  def do_GET(self):
      parsed_path = urlparse(self.path)
      if parsed_path.path == '/':
          self.send_response(302)
          self.send_header('Location', '/index-standalone.html')
          self.end_headers()
          return
      if parsed_path.path == '/favicon.ico':
          self.send_response(404)
          self.end_headers()
          return
      super().do_GET()
  \<close>
  The library enters as parameters: \<open>urlparse\<close>, and the default handler
  \<open>super().do_GET()\<close>, which reads the served directory \<open>fs\<close>. An exception of either
  leaves \<open>do_GET\<close>.
\<close>

definition do_GET ::
  "(string \<Rightarrow> exc + ParseResult) \<Rightarrow> ('fs \<Rightarrow> string \<Rightarrow> exc + action list) \<Rightarrow> 'fs \<Rightarrow> string
     \<Rightarrow> exc + action list" where
  "do_GET urlparse_fn super_do_GET fs self_path =
     (case urlparse_fn self_path of
        Inl e \<Rightarrow> Inl e
      | Inr parsed_path \<Rightarrow>
          if url_path parsed_path = ''/'' then
            Inr [send_response 302, send_header ''Location'' ''/index-standalone.html'', end_headers]
          else if url_path parsed_path = ''/favicon.ico'' then
            Inr [send_response 404, end_headers]
          else super_do_GET fs self_path)"

subsection \<open>Which method answers a request\<close>

text \<open>
  The class body defines four methods; every other attribute is inherited from
  \<open>http.server.SimpleHTTPRequestHandler\<close>. The library's \<open>handle_one_request\<close> answers
  a request with command \<open>c\<close> by calling the attribute \<open>'do_' + c\<close> with no argument.
  An attribute the class defines shadows the inherited one; \<open>inherited\<close> stands for the
  superclass's answer under a name the class does not define (its own method of that
  name, or the 501 reply when it has none).
\<close>

datatype method_def = def_init | def_guess_type | def_do_GET | def_log_message

definition CustomHTTPRequestHandler :: "(string \<times> method_def) list" where
  "CustomHTTPRequestHandler =
     [(''__init__'', def_init), (''guess_type'', def_guess_type),
      (''do_GET'', def_do_GET), (''log_message'', def_log_message)]"

definition handle_one_request ::
  "(string \<Rightarrow> exc + ParseResult) \<Rightarrow> ('fs \<Rightarrow> string \<Rightarrow> exc + action list)
     \<Rightarrow> (string \<Rightarrow> 'fs \<Rightarrow> string \<Rightarrow> exc + action list) \<Rightarrow> 'fs \<Rightarrow> string \<Rightarrow> string
     \<Rightarrow> exc + action list" where
  "handle_one_request urlparse_fn super_do_GET inherited fs command self_path =
     (let mname = ''do_'' @ command in
      case map_of CustomHTTPRequestHandler mname of
        Some def_do_GET \<Rightarrow> do_GET urlparse_fn super_do_GET fs self_path
      | Some m \<Rightarrow> Inl (Exc TypeError ''missing required positional argument'')
      | None \<Rightarrow> inherited mname fs self_path)"

section \<open>The entry point: \<^verbatim>\<open>main\<close>\<close>

text \<open>
  \<^verbatim>\<open>
  def main():
      try:
          port = find_free_port(8080)
          print(...)                      # the banner, ten lines
          os.chdir(os.path.dirname(os.path.abspath(__file__)))
          with socketserver.TCPServer(("", port), CustomHTTPRequestHandler) as httpd:
              httpd.serve_forever()
      except KeyboardInterrupt:
          print("\n<stop sign> Server stopped by user")
      except Exception as e:
          print(f"<cross mark> Error starting server: {e}")
          sys.exit(1)
  \<close>
  Standard output is the list of the strings printed, one per \<open>print\<close> call, as the
  bytes of their UTF-8 encoding. The operating system and the library enter as the
  outcomes of the calls that can raise: the probes of the port search, \<open>os.chdir\<close>, the
  constructor of \<open>TCPServer\<close> and \<open>serve_forever\<close> (\<open>None\<close>: the call returns).
\<close>

record env =
  port_probe :: "int \<Rightarrow> exc option"
  os_chdir :: "exc option"
  TCPServer :: "int \<Rightarrow> exc option"
  serve_forever :: "exc option"

text \<open>\<open>str(n)\<close> for an integer, as the f-strings of the banner format the port.\<close>

fun str_nat :: "nat \<Rightarrow> string" where
  "str_nat n = (if n < 10 then [char_of (48 + n)] else str_nat (n div 10) @ [char_of (48 + n mod 10)])"

definition str_int :: "int \<Rightarrow> string" where
  "str_int i = (if i < 0 then CHR ''-'' # str_nat (nat (- i)) else str_nat (nat i))"

definition rocket :: string where
  "rocket = [CHR 0xF0, CHR 0x9F, CHR 0x9A, CHR 0x80]"

definition globe :: string where
  "globe = [CHR 0xF0, CHR 0x9F, CHR 0x8C, CHR 0x90]"

definition stop_sign :: string where
  "stop_sign = [CHR 0xF0, CHR 0x9F, CHR 0x9B, CHR 0x91]"

definition cross_mark :: string where
  "cross_mark = [CHR 0xE2, CHR 0x9D, CHR 0x8C]"

definition banner :: "int \<Rightarrow> string list" where
  "banner port =
     [rocket @ '' Interactive CNN Trainer - Python HTTP Server'',
      replicate 50 (CHR ''=''),
      globe @ '' Starting server on port '' @ str_int port @ ''...'',
      ''   Open your browser and navigate to:'',
      ''   '',
      ''   http://localhost:'' @ str_int port,
      ''   '',
      ''   The server will automatically redirect to the standalone version'',
      ''   Press Ctrl+C to stop the server'',
      '''']"

text \<open>
  The body of the \<open>try\<close>: what it printed, and the exception that ended it (\<open>None\<close>
  when \<open>serve_forever\<close> returned).
\<close>

definition main_try :: "env \<Rightarrow> string list \<times> exc option" where
  "main_try e =
     (case fst (find_free_port (port_probe e) 8080) of
        Inl err \<Rightarrow> ([], Some (raised err))
      | Inr port \<Rightarrow>
          (case os_chdir e of
             Some x \<Rightarrow> (banner port, Some x)
           | None \<Rightarrow>
               (case TCPServer e port of
                  Some x \<Rightarrow> (banner port, Some x)
                | None \<Rightarrow> (banner port, serve_forever e))))"

text \<open>
  How \<open>main\<close> ends: it returns, it leaves through \<open>sys.exit(n)\<close>, or an exception that
  neither \<open>except\<close> clause catches leaves it.
\<close>

datatype outcome = Returned | Exited int | Uncaught exc

definition main :: "env \<Rightarrow> string list \<times> outcome" where
  "main e =
     (case main_try e of
        (out, None) \<Rightarrow> (out, Returned)
      | (out, Some x) \<Rightarrow>
          if cls x = KeyboardInterrupt then
            (out @ [CHR 0x0A # stop_sign @ '' Server stopped by user''], Returned)
          else if is_Exception (cls x) then
            (out @ [cross_mark @ '' Error starting server: '' @ msg x], Exited 1)
          else (out, Uncaught x))"

text \<open>
  The exit status of the process, \<open>main()\<close> being the last statement of the script:
  0 when it returns, the argument of \<open>sys.exit\<close>, and 1 after an uncaught exception.
\<close>

fun exit_status :: "outcome \<Rightarrow> int" where
  "exit_status Returned = 0"
| "exit_status (Exited n) = n"
| "exit_status (Uncaught x) = 1"

section \<open>The screenshot script: \<^verbatim>\<open>verify_compact_ui.py\<close>\<close>

text \<open>
  \<^verbatim>\<open>
  def run(playwright):
      browser = playwright.chromium.launch()
      page = browser.new_page()
      page.set_viewport_size({"width": 375, "height": 667})
      page.goto("http://localhost:5173/")
      page.screenshot(path="jules-scratch/verification/compact_ui_verification.png")
      browser.close()
  \<close>
  Each statement is one call of the browser-automation library. A call is recorded with
  the arguments the script passes; a keyword argument the library accepts and the script
  omits is \<open>None\<close>.
\<close>

datatype call =
  launch "bool option"                \<comment> \<open>\<open>chromium.launch(headless=...)\<close>\<close>
| new_page
| set_viewport_size int int           \<comment> \<open>width, height\<close>
| goto string
| screenshot string "bool option"     \<comment> \<open>\<open>page.screenshot(path=..., full_page=...)\<close>\<close>
| close

definition run :: "call list" where
  "run =
     [launch None,
      new_page,
      set_viewport_size 375 667,
      goto ''http://localhost:5173/'',
      screenshot ''jules-scratch/verification/compact_ui_verification.png'' None,
      close]"

text \<open>
  The statements run in order; the first call that raises ends the script with that
  exception. \<open>raises\<close> gives the outcome of each call.
\<close>

fun exec_calls :: "(call \<Rightarrow> exc option) \<Rightarrow> call list \<Rightarrow> call list \<times> exc option" where
  "exec_calls raises [] = ([], None)"
| "exec_calls raises (c # cs) =
     (case raises c of
        Some x \<Rightarrow> ([c], Some x)
      | None \<Rightarrow> (case exec_calls raises cs of (done_calls, r) \<Rightarrow> (c # done_calls, r)))"

text \<open>
  What the library does with an omitted keyword argument: \<open>launch\<close> starts the browser
  headless unless \<open>headless=False\<close> is passed, and \<open>screenshot\<close> captures the visible
  viewport unless \<open>full_page=True\<close> is passed.
\<close>

datatype effect =
  LaunchBrowser bool                  \<comment> \<open>headless?\<close>
| OpenPage
| SetViewport int int
| Navigate string
| Capture string bool                 \<comment> \<open>output path, full page?\<close>
| CloseBrowser

fun effect_of :: "call \<Rightarrow> effect" where
  "effect_of (launch headless) = LaunchBrowser (case headless of None \<Rightarrow> True | Some b \<Rightarrow> b)"
| "effect_of new_page = OpenPage"
| "effect_of (set_viewport_size w h) = SetViewport w h"
| "effect_of (goto url) = Navigate url"
| "effect_of (screenshot p full_page) = Capture p (case full_page of None \<Rightarrow> False | Some b \<Rightarrow> b)"
| "effect_of close = CloseBrowser"

text \<open>
  The sequence as the specification words it, with a full-page screenshot; it is compared
  with what \<open>run\<close> does.
\<close>

definition claimed_effects :: "effect list" where
  "claimed_effects =
     [LaunchBrowser True, OpenPage, SetViewport 375 667, Navigate ''http://localhost:5173/'',
      Capture ''jules-scratch/verification/compact_ui_verification.png'' True, CloseBrowser]"

section \<open>Properties of \<open>guess_type\<close>\<close>

text \<open>
  The superclass method returns a \<open>str\<close> whatever the tables hold, never a pair.
\<close>

lemma SimpleHTTPRequestHandler_guess_type_str:
  "\<exists>t. SimpleHTTPRequestHandler_guess_type splitext_ext lower extensions_map mimetypes_guess path = PStr t"
  by (simp add: SimpleHTTPRequestHandler_guess_type_def Let_def split: option.splits)

lemma unpack2_str:
  "3 \<le> length t \<Longrightarrow> unpack2 (PStr t) = Inl (Exc ValueError ''too many values to unpack (expected 2)'')"
  by (cases t rule: list.exhaust; simp add: unpack2_def split: list.splits)
     (auto simp: unpack2_def split: list.splits)

lemma guess_type_str_raises:
  assumes "super_guess_type path = PStr t" and "3 \<le> length t"
  shows "guess_type super_guess_type path = Inl (Exc ValueError ''too many values to unpack (expected 2)'')"
  using assms by (simp add: guess_type_def unpack2_str)

text \<open>
  Claim C1 says that for a path with one of the nine overridden extensions \<open>guess_type\<close>
  returns the fixed content type whatever the default guesser returns. The code does not:
  for \<open>/app.tsx\<close> the superclass method returns the \<open>str\<close>
  \<open>application/octet-stream\<close>, the first line of \<open>guess_type\<close> unpacks it into two
  names, and the unpacking raises \<open>ValueError\<close> before any suffix is tested.
\<close>

theorem guess_type_override_raises:
  "SimpleHTTPRequestHandler_guess_type (\<lambda>p. ''.tsx'') (\<lambda>s. s) Map.empty Map.empty ''/app.tsx''
     = PStr ''application/octet-stream'' \<and>
   guess_type (SimpleHTTPRequestHandler_guess_type (\<lambda>p. ''.tsx'') (\<lambda>s. s) Map.empty Map.empty) ''/app.tsx''
     = Inl (Exc ValueError ''too many values to unpack (expected 2)'')"
  by (simp add: guess_type_def unpack2_def SimpleHTTPRequestHandler_guess_type_def)

text \<open>
  Claim C2 says that for a path with no overridden extension \<open>guess_type\<close> returns the
  result of the default guesser unchanged. The code does not: for \<open>/notes.txt\<close> the
  superclass method returns the \<open>str\<close> \<open>text/plain\<close>, and the same unpacking raises
  \<open>ValueError\<close>.
\<close>

theorem guess_type_passthrough_raises:
  "SimpleHTTPRequestHandler_guess_type (\<lambda>p. ''.txt'') (\<lambda>s. s) Map.empty
     [''/notes.txt'' \<mapsto> ''text/plain''] ''/notes.txt'' = PStr ''text/plain'' \<and>
   guess_type
     (SimpleHTTPRequestHandler_guess_type (\<lambda>p. ''.txt'') (\<lambda>s. s) Map.empty
        [''/notes.txt'' \<mapsto> ''text/plain''])
     ''/notes.txt'' = Inl (Exc ValueError ''too many values to unpack (expected 2)'')"
  by (simp add: guess_type_def unpack2_def SimpleHTTPRequestHandler_guess_type_def)

subsection \<open>What the branches do when the superclass result is a pair\<close>

text \<open>
  The tests of \<open>guess_type\<close> are reached when the value of \<open>super().guess_type(path)\<close>
  unpacks, as a pair \<open>(mimetype, encoding)\<close> does. The suffixes exclude one another, so
  the order of the tests does not matter.
\<close>

lemma endswith_iff: "endswith p s = (\<exists>zs. p = zs @ s)"
proof
  assume "endswith p s"
  then have "p = take (length p - length s) p @ s"
    by (metis append_take_drop_id endswith_def)
  then show "\<exists>zs. p = zs @ s" ..
next
  assume "\<exists>zs. p = zs @ s"
  then show "endswith p s" by (auto simp: endswith_def)
qed

lemma endswith_both:
  assumes "endswith p s" and "endswith p t"
  shows "endswith s t \<or> endswith t s"
proof -
  from assms(1) obtain a where a: "p = a @ s" by (auto simp: endswith_iff)
  from assms(2) obtain b where b: "p = b @ t" by (auto simp: endswith_iff)
  from a b have "a @ s = b @ t" by simp
  then show ?thesis
    by (auto simp: append_eq_append_conv2 endswith_iff)
qed

lemma endswith_exclusive:
  "endswith p s \<Longrightarrow> \<not> endswith s t \<Longrightarrow> \<not> endswith t s \<Longrightarrow> \<not> endswith p t"
  using endswith_both by blast

lemma guess_type_pair:
  assumes "super_guess_type path = PTuple [mimetype, encoding]"
  shows "guess_type super_guess_type path =
     (if endswith path ''.tsx'' \<or> endswith path ''.ts'' then
            Inr (PStr ''application/javascript'', encoding)
          else if endswith path ''.jsx'' \<or> endswith path ''.js'' then
            Inr (PStr ''application/javascript'', encoding)
          else if endswith path ''.json'' then Inr (PStr ''application/json'', encoding)
          else if endswith path ''.css'' then Inr (PStr ''text/css'', encoding)
          else if endswith path ''.html'' then Inr (PStr ''text/html'', encoding)
          else if endswith path ''.svg'' then Inr (PStr ''image/svg+xml'', encoding)
          else if endswith path ''.ico'' then Inr (PStr ''image/x-icon'', encoding)
          else Inr (mimetype, encoding))"
  using assms by (simp add: guess_type_def unpack2_def)

lemma distinct_suffixes:
  "endswith path ''.json'' \<Longrightarrow>
     \<not> endswith path ''.tsx'' \<and> \<not> endswith path ''.ts'' \<and> \<not> endswith path ''.jsx'' \<and> \<not> endswith path ''.js''"
  "endswith path ''.css'' \<Longrightarrow>
     \<not> endswith path ''.tsx'' \<and> \<not> endswith path ''.ts'' \<and> \<not> endswith path ''.jsx'' \<and> \<not> endswith path ''.js''
     \<and> \<not> endswith path ''.json''"
  "endswith path ''.html'' \<Longrightarrow>
     \<not> endswith path ''.tsx'' \<and> \<not> endswith path ''.ts'' \<and> \<not> endswith path ''.jsx'' \<and> \<not> endswith path ''.js''
     \<and> \<not> endswith path ''.json'' \<and> \<not> endswith path ''.css''"
  "endswith path ''.svg'' \<Longrightarrow>
     \<not> endswith path ''.tsx'' \<and> \<not> endswith path ''.ts'' \<and> \<not> endswith path ''.jsx'' \<and> \<not> endswith path ''.js''
     \<and> \<not> endswith path ''.json'' \<and> \<not> endswith path ''.css'' \<and> \<not> endswith path ''.html''"
  "endswith path ''.ico'' \<Longrightarrow>
     \<not> endswith path ''.tsx'' \<and> \<not> endswith path ''.ts'' \<and> \<not> endswith path ''.jsx'' \<and> \<not> endswith path ''.js''
     \<and> \<not> endswith path ''.json'' \<and> \<not> endswith path ''.css'' \<and> \<not> endswith path ''.html''
     \<and> \<not> endswith path ''.svg''"
  by ((intro conjI; erule endswith_exclusive; simp add: endswith_def)+)

text \<open>
  With a pair from the superclass, a path that ends in an overridden suffix gets the
  fixed content type of that suffix, paired with the encoding of the superclass.
\<close>

theorem guess_type_override_given_pair:
  assumes "super_guess_type path = PTuple [mimetype, encoding]"
  shows
    "(endswith path ''.tsx'' \<or> endswith path ''.ts'' \<or> endswith path ''.jsx'' \<or> endswith path ''.js''
       \<longrightarrow> guess_type super_guess_type path = Inr (PStr ''application/javascript'', encoding)) \<and>
     (endswith path ''.json'' \<longrightarrow> guess_type super_guess_type path = Inr (PStr ''application/json'', encoding)) \<and>
     (endswith path ''.css'' \<longrightarrow> guess_type super_guess_type path = Inr (PStr ''text/css'', encoding)) \<and>
     (endswith path ''.html'' \<longrightarrow> guess_type super_guess_type path = Inr (PStr ''text/html'', encoding)) \<and>
     (endswith path ''.svg'' \<longrightarrow> guess_type super_guess_type path = Inr (PStr ''image/svg+xml'', encoding)) \<and>
     (endswith path ''.ico'' \<longrightarrow> guess_type super_guess_type path = Inr (PStr ''image/x-icon'', encoding))"
  using distinct_suffixes[of path] guess_type_pair[of super_guess_type path mimetype encoding] assms
  by auto

theorem guess_type_override_given_pair_witness:
  "guess_type (\<lambda>p. PTuple [PStr ''video/mp2t'', PNone]) ''/src/app.ts''
     = Inr (PStr ''application/javascript'', PNone)"
  using guess_type_override_given_pair[of "\<lambda>p. PTuple [PStr ''video/mp2t'', PNone]" "''/src/app.ts''"
      "PStr ''video/mp2t''" PNone]
  by (simp add: endswith_def)

text \<open>
  With a pair from the superclass, a path that ends in none of the overridden suffixes
  gets that pair back.
\<close>

theorem guess_type_passthrough_given_pair:
  assumes "super_guess_type path = PTuple [mimetype, encoding]"
    and "\<not> endswith path ''.tsx''" and "\<not> endswith path ''.ts''"
    and "\<not> endswith path ''.jsx''" and "\<not> endswith path ''.js''"
    and "\<not> endswith path ''.json''" and "\<not> endswith path ''.css''"
    and "\<not> endswith path ''.html''" and "\<not> endswith path ''.svg''"
    and "\<not> endswith path ''.ico''"
  shows "guess_type super_guess_type path = Inr (mimetype, encoding)"
  using assms guess_type_pair[of super_guess_type path mimetype encoding] by simp

theorem guess_type_passthrough_given_pair_witness:
  "guess_type (\<lambda>p. PTuple [PStr ''text/plain'', PNone]) ''/notes.txt'' = Inr (PStr ''text/plain'', PNone)"
  using guess_type_passthrough_given_pair[of "\<lambda>p. PTuple [PStr ''text/plain'', PNone]" "''/notes.txt''"
      "PStr ''text/plain''" PNone]
  by (simp add: endswith_def)

section \<open>Properties of \<open>do_GET\<close>\<close>

text \<open>The path that \<open>urlparse\<close> extracts from the two special targets, with or without a query.\<close>

lemma c0_slash [simp]: "\<not> c0_control_or_space (CHR ''/'')"
  by (simp add: c0_control_or_space_def)

lemma alpha_slash [simp]: "\<not> ascii_alpha (CHR ''/'')"
  by (simp add: ascii_alpha_def)

lemma split_scheme_slash: "split_scheme (CHR ''/'' # u) = ('''', CHR ''/'' # u)"
  by (simp add: split_scheme_def)

lemma urlparse_root_query:
  "\<exists>r. urlparse cb cn (''/'' @ ''?'' @ q) = Inr r \<and> url_path r = ''/''"
  by (simp add: urlparse_def urlsplit_def split_scheme_slash unsafe_url_byte_def split1_def
      uses_params_def Let_def split: prod.splits)

lemma urlparse_root: "\<exists>r. urlparse cb cn ''/'' = Inr r \<and> url_path r = ''/''"
  by (simp add: urlparse_def urlsplit_def split_scheme_slash unsafe_url_byte_def split1_def
      uses_params_def Let_def split: prod.splits)

lemma urlparse_favicon_query:
  "\<exists>r. urlparse cb cn (''/favicon.ico'' @ ''?'' @ q) = Inr r \<and> url_path r = ''/favicon.ico''"
  by (simp add: urlparse_def urlsplit_def split_scheme_slash unsafe_url_byte_def split1_def
      uses_params_def Let_def split: prod.splits)

lemma urlparse_favicon:
  "\<exists>r. urlparse cb cn ''/favicon.ico'' = Inr r \<and> url_path r = ''/favicon.ico''"
  by (simp add: urlparse_def urlsplit_def split_scheme_slash unsafe_url_byte_def split1_def
      uses_params_def Let_def split: prod.splits)


text \<open>
  Claim C3. For every GET request whose URL path component is exactly \<open>/\<close>, \<open>do_GET\<close>
  responds with status 302 and the header \<open>Location: /index-standalone.html\<close>; the
  default handler \<open>super_do_GET\<close> has no part in the answer.
\<close>

theorem do_GET_root_redirects:
  assumes "urlparse_fn self_path = Inr parsed_path" and "url_path parsed_path = ''/''"
  shows "do_GET urlparse_fn super_do_GET fs self_path =
           Inr [send_response 302, send_header ''Location'' ''/index-standalone.html'', end_headers]"
  using assms by (simp add: do_GET_def)

theorem do_GET_root_redirects_witness:
  "do_GET (urlparse (\<lambda>h. None) (\<lambda>n. None)) (\<lambda>fs p. Inr [send_response 200, end_headers]) () ''/'' =
     Inr [send_response 302, send_header ''Location'' ''/index-standalone.html'', end_headers]"
proof -
  obtain r where r: "urlparse (\<lambda>h. None) (\<lambda>n. None) ''/'' = Inr r" "url_path r = ''/''"
    using urlparse_root by blast
  show ?thesis
    using do_GET_root_redirects[of "urlparse (\<lambda>h. None) (\<lambda>n. None)" "''/''" r, OF r] .
qed

text \<open>
  Claim C4. For every GET request whose URL path component is exactly \<open>/favicon.ico\<close>,
  \<open>do_GET\<close> responds with status 404 and returns; neither the default handler nor the
  served directory \<open>fs\<close> has a part in the answer, whether or not it holds such a file.
\<close>

theorem do_GET_favicon_404:
  assumes "urlparse_fn self_path = Inr parsed_path" and "url_path parsed_path = ''/favicon.ico''"
  shows "do_GET urlparse_fn super_do_GET fs self_path = Inr [send_response 404, end_headers]"
  using assms by (simp add: do_GET_def)

theorem do_GET_favicon_404_witness:
  "do_GET (urlparse (\<lambda>h. None) (\<lambda>n. None))
     (\<lambda>fs p. if p \<in> set fs then Inr [send_response 200, send_header ''Content-type'' ''image/x-icon'', end_headers]
              else Inr [send_response 404, end_headers])
     [''/favicon.ico''] ''/favicon.ico'' = Inr [send_response 404, end_headers]"
proof -
  obtain r where r: "urlparse (\<lambda>h. None) (\<lambda>n. None) ''/favicon.ico'' = Inr r"
    "url_path r = ''/favicon.ico''"
    using urlparse_favicon by blast
  show ?thesis
    using do_GET_favicon_404[of "urlparse (\<lambda>h. None) (\<lambda>n. None)" "''/favicon.ico''" r, OF r] .
qed

lemma urlparse_root_fragment:
  "\<exists>r. urlparse cb cn (''/'' @ ''#'' @ f) = Inr r \<and> url_path r = ''/''"
  by (simp add: urlparse_def urlsplit_def split_scheme_slash unsafe_url_byte_def split1_def
      uses_params_def Let_def split: prod.splits)

lemma urlparse_favicon_fragment:
  "\<exists>r. urlparse cb cn (''/favicon.ico'' @ ''#'' @ f) = Inr r \<and> url_path r = ''/favicon.ico''"
  by (simp add: urlparse_def urlsplit_def split_scheme_slash unsafe_url_byte_def split1_def
      uses_params_def Let_def split: prod.splits)

lemma urlparse_root_params:
  "\<exists>r. urlparse cb cn (''/'' @ '';'' @ ''x'') = Inr r \<and> url_path r = ''/''"
  by (simp add: urlparse_def urlsplit_def split_scheme_slash unsafe_url_byte_def split1_def
      uses_params_def splitparams_def Let_def split: prod.splits)

lemma do_GET_by_path:
  "urlparse_fn self_path = Inr r \<Longrightarrow>
   do_GET urlparse_fn super_do_GET fs self_path =
     (if url_path r = ''/'' then
        Inr [send_response 302, send_header ''Location'' ''/index-standalone.html'', end_headers]
      else if url_path r = ''/favicon.ico'' then Inr [send_response 404, end_headers]
      else super_do_GET fs self_path)"
  by (simp add: do_GET_def)

text \<open>
  Claim C9. The routing depends on the path component only, not on a query string or a
  fragment. Whatever the target, \<open>do_GET\<close> decides on the path that \<open>urlparse\<close> extracts
  from it: the redirect for \<open>/\<close>, the 404 for \<open>/favicon.ico\<close>, the default handler
  otherwise, and the exception of \<open>urlparse\<close> when it raises. So for every query string
  \<open>q\<close> and fragment \<open>f\<close>, a GET of \<open>/?q\<close>, \<open>/#f\<close> or \<open>/?q#f\<close> receives the same 302
  redirect as a GET of \<open>/\<close>, and a GET of \<open>/favicon.ico?q\<close>, \<open>/favicon.ico#f\<close> or
  \<open>/favicon.ico?q#f\<close> the same 404 as a GET of \<open>/favicon.ico\<close>.
\<close>

theorem do_GET_routes_on_path_only:
  "(urlparse cb cn t = Inr r \<longrightarrow>
      do_GET (urlparse cb cn) super_do_GET fs t =
        (if url_path r = ''/'' then
           Inr [send_response 302, send_header ''Location'' ''/index-standalone.html'', end_headers]
         else if url_path r = ''/favicon.ico'' then Inr [send_response 404, end_headers]
         else super_do_GET fs t)) \<and>
   (urlparse cb cn t = Inl e \<longrightarrow> do_GET (urlparse cb cn) super_do_GET fs t = Inl e) \<and>
   do_GET (urlparse cb cn) super_do_GET fs ''/'' =
     Inr [send_response 302, send_header ''Location'' ''/index-standalone.html'', end_headers] \<and>
   do_GET (urlparse cb cn) super_do_GET fs (''/'' @ ''?'' @ q) =
     do_GET (urlparse cb cn) super_do_GET fs ''/'' \<and>
   do_GET (urlparse cb cn) super_do_GET fs (''/'' @ ''#'' @ f) =
     do_GET (urlparse cb cn) super_do_GET fs ''/'' \<and>
   do_GET (urlparse cb cn) super_do_GET fs (''/'' @ ''?'' @ q @ ''#'' @ f) =
     do_GET (urlparse cb cn) super_do_GET fs ''/'' \<and>
   do_GET (urlparse cb cn) super_do_GET fs ''/favicon.ico'' = Inr [send_response 404, end_headers] \<and>
   do_GET (urlparse cb cn) super_do_GET fs (''/favicon.ico'' @ ''?'' @ q) =
     do_GET (urlparse cb cn) super_do_GET fs ''/favicon.ico'' \<and>
   do_GET (urlparse cb cn) super_do_GET fs (''/favicon.ico'' @ ''#'' @ f) =
     do_GET (urlparse cb cn) super_do_GET fs ''/favicon.ico'' \<and>
   do_GET (urlparse cb cn) super_do_GET fs (''/favicon.ico'' @ ''?'' @ q @ ''#'' @ f) =
     do_GET (urlparse cb cn) super_do_GET fs ''/favicon.ico''"
proof -
  let ?get = "do_GET (urlparse cb cn) super_do_GET fs"
  let ?redirect = "Inr [send_response 302, send_header ''Location'' ''/index-standalone.html'',
    end_headers] :: exc + action list"
  let ?missing = "Inr [send_response 404, end_headers] :: exc + action list"
  have root: "?get ''/'' = ?redirect"
    using urlparse_root[of cb cn] by (auto simp: do_GET_by_path)
  have root_q: "?get (''/'' @ ''?'' @ u) = ?redirect" for u
    using urlparse_root_query[of cb cn u] by (auto simp: do_GET_by_path)
  have root_f: "?get (''/'' @ ''#'' @ f) = ?redirect"
    using urlparse_root_fragment[of cb cn f] by (auto simp: do_GET_by_path)
  have fav: "?get ''/favicon.ico'' = ?missing"
    using urlparse_favicon[of cb cn] by (auto simp: do_GET_by_path)
  have fav_q: "?get (''/favicon.ico'' @ ''?'' @ u) = ?missing" for u
    using urlparse_favicon_query[of cb cn u] by (auto simp: do_GET_by_path)
  have fav_f: "?get (''/favicon.ico'' @ ''#'' @ f) = ?missing"
    using urlparse_favicon_fragment[of cb cn f] by (auto simp: do_GET_by_path)
  have gen: "urlparse cb cn t = Inr r \<longrightarrow>
      ?get t =
        (if url_path r = ''/'' then ?redirect
         else if url_path r = ''/favicon.ico'' then ?missing
         else super_do_GET fs t)"
    by (simp add: do_GET_by_path)
  have err: "urlparse cb cn t = Inl e \<longrightarrow> ?get t = Inl e"
    by (simp add: do_GET_def)
  show ?thesis
    using gen err root root_q[of q] root_q[of "q @ ''#'' @ f"] root_f fav fav_q[of q]
      fav_q[of "q @ ''#'' @ f"] fav_f
    by (simp only: append_assoc simp_thms)
qed

theorem do_GET_routes_on_path_only_witness:
  "do_GET (urlparse (\<lambda>h. None) (\<lambda>n. None)) (\<lambda>fs p. Inr [send_response 200, end_headers]) ()
     ''/?v=2#top'' =
     Inr [send_response 302, send_header ''Location'' ''/index-standalone.html'', end_headers] \<and>
   do_GET (urlparse (\<lambda>h. None) (\<lambda>n. None)) (\<lambda>fs p. Inr [send_response 200, end_headers]) ()
     ''/#top'' =
     Inr [send_response 302, send_header ''Location'' ''/index-standalone.html'', end_headers] \<and>
   do_GET (urlparse (\<lambda>h. None) (\<lambda>n. None)) (\<lambda>fs p. Inr [send_response 200, end_headers]) ()
     ''/favicon.ico?v=2'' = Inr [send_response 404, end_headers] \<and>
   do_GET (urlparse (\<lambda>h. None) (\<lambda>n. None)) (\<lambda>fs p. Inr [send_response 200, end_headers]) ()
     ''/favicon.ico#top'' = Inr [send_response 404, end_headers] \<and>
   do_GET (urlparse (\<lambda>h. None) (\<lambda>n. None)) (\<lambda>fs p. Inr [send_response 200, end_headers]) ()
     ''/;x'' =
     Inr [send_response 302, send_header ''Location'' ''/index-standalone.html'', end_headers]"
proof -
  let ?get = "do_GET (urlparse (\<lambda>h. None) (\<lambda>n. None))
    (\<lambda>fs p. Inr [send_response 200, end_headers]) ()"
  note inst = do_GET_routes_on_path_only[where cb = "\<lambda>h. None" and cn = "\<lambda>n. None"
      and super_do_GET = "\<lambda>fs p. Inr [send_response 200, end_headers]" and fs = "()"
      and q = "''v=2''" and f = "''top''"]
  obtain r where r: "urlparse (\<lambda>h. None) (\<lambda>n. None) ''/;x'' = Inr r" "url_path r = ''/''"
    using urlparse_root_params[of "\<lambda>h. None" "\<lambda>n. None"] by auto
  from inst[where t = "''/;x''" and r = r] r
  have params: "?get ''/;x'' =
     Inr [send_response 302, send_header ''Location'' ''/index-standalone.html'', end_headers]"
    by simp
  from inst[where t = "''/''" and r = r]
  have rest: "?get ''/?v=2#top'' =
       Inr [send_response 302, send_header ''Location'' ''/index-standalone.html'', end_headers]"
    "?get ''/#top'' =
       Inr [send_response 302, send_header ''Location'' ''/index-standalone.html'', end_headers]"
    "?get ''/favicon.ico?v=2'' = Inr [send_response 404, end_headers]"
    "?get ''/favicon.ico#top'' = Inr [send_response 404, end_headers]"
    by simp_all
  from params rest show ?thesis by simp
qed


text \<open>Among the names \<open>do_\<dots>\<close> the class defines \<open>do_GET\<close> alone.\<close>

lemma own_do_method:
  "map_of CustomHTTPRequestHandler (''do_'' @ command) =
     (if command = ''GET'' then Some def_do_GET else None)"
  by (simp add: CustomHTTPRequestHandler_def)

text \<open>
  Claim C10. The two special cases apply to GET only: for any other command (HEAD, say)
  the request is answered by the inherited method, whatever its path, so a HEAD of \<open>/\<close>
  gets the library's answer and not the redirect to \<open>/index-standalone.html\<close>; a GET is
  answered by \<open>do_GET\<close>.
\<close>

theorem only_do_GET_overridden:
  "(command \<noteq> ''GET'' \<longrightarrow>
      handle_one_request urlparse_fn super_do_GET inherited fs command self_path =
        inherited (''do_'' @ command) fs self_path) \<and>
   handle_one_request urlparse_fn super_do_GET inherited fs ''GET'' self_path =
     do_GET urlparse_fn super_do_GET fs self_path"
  using own_do_method[of command] own_do_method[of "''GET''"]
  by (simp add: handle_one_request_def)

theorem only_do_GET_overridden_witness:
  "handle_one_request (urlparse (\<lambda>h. None) (\<lambda>n. None)) (\<lambda>fs p. Inr [send_response 200, end_headers])
     (\<lambda>m fs p. if m = ''do_HEAD'' then Inr [send_response 200, end_headers] else Inr [send_response 501, end_headers])
     () ''HEAD'' ''/'' = Inr [send_response 200, end_headers] \<and>
   handle_one_request (urlparse (\<lambda>h. None) (\<lambda>n. None)) (\<lambda>fs p. Inr [send_response 200, end_headers])
     (\<lambda>m fs p. if m = ''do_HEAD'' then Inr [send_response 200, end_headers] else Inr [send_response 501, end_headers])
     () ''HEAD'' ''/'' \<noteq>
     Inr [send_response 302, send_header ''Location'' ''/index-standalone.html'', end_headers]"
  using only_do_GET_overridden[of "''HEAD''" "urlparse (\<lambda>h. None) (\<lambda>n. None)"
      "\<lambda>fs p. Inr [send_response 200, end_headers]"
      "\<lambda>m fs p. if m = ''do_HEAD'' then Inr [send_response 200, end_headers] else Inr [send_response 501, end_headers]"
      "()" "''/''"]
  by simp
section \<open>Properties of the port search\<close>

declare find_free_port_loop.simps [simp del]

lemma loop_stop:
  "\<not> port < s + 100 \<Longrightarrow> find_free_port_loop probe s port pr = (Inl NoFreePort, pr)"
  by (subst find_free_port_loop.simps) simp

lemma loop_bound:
  "port < s + 100 \<Longrightarrow> probe port = None \<Longrightarrow>
   find_free_port_loop probe s port pr = (Inr port, pr @ [port])"
  by (subst find_free_port_loop.simps) simp

lemma loop_retry:
  "port < s + 100 \<Longrightarrow> os_error (probe port) \<Longrightarrow>
   find_free_port_loop probe s port pr = find_free_port_loop probe s (port + 1) (pr @ [port])"
  by (subst find_free_port_loop.simps) (simp add: os_error_def split: option.splits)

lemma loop_raise:
  "port < s + 100 \<Longrightarrow> probe port = Some e \<Longrightarrow> cls e \<noteq> OSError \<Longrightarrow>
   find_free_port_loop probe s port pr = (Inl (ProbeRaised e), pr @ [port])"
  by (subst find_free_port_loop.simps) simp

lemma loop_found:
  "find_free_port_loop probe s port pr = (Inr p, tr) \<Longrightarrow>
     port \<le> p \<and> p < s + 100 \<and> probe p = None \<and>
     (\<forall>q. port \<le> q \<and> q < p \<longrightarrow> os_error (probe q)) \<and> tr = pr @ [port..p]"
proof (induction probe s port pr rule: find_free_port_loop.induct)
  case (1 probe s port pr)
  show ?case
  proof (cases "port < s + 100")
    case False
    with "1.prems" show ?thesis by (simp add: loop_stop)
  next
    case lt: True
    show ?thesis
    proof (cases "probe port")
      case None
      with lt "1.prems" have "p = port" "tr = pr @ [port]" by (auto simp: loop_bound)
      with None lt show ?thesis by auto
    next
      case (Some e)
      show ?thesis
      proof (cases "cls e = OSError")
        case False
        with Some lt "1.prems" show ?thesis by (simp add: loop_raise)
      next
        case True
        with Some lt "1.prems"
        have call: "find_free_port_loop probe s (port + 1) (pr @ [port]) = (Inr p, tr)"
          by (simp add: loop_retry os_error_def)
        from "1.IH"[OF lt Some True call]
        have ih: "port + 1 \<le> p" "p < s + 100" "probe p = None"
          "\<forall>q. port + 1 \<le> q \<and> q < p \<longrightarrow> os_error (probe q)"
          "tr = (pr @ [port]) @ [port + 1..p]" by simp_all
        have all: "\<forall>q. port \<le> q \<and> q < p \<longrightarrow> os_error (probe q)"
        proof (intro allI impI)
          fix q assume q: "port \<le> q \<and> q < p"
          show "os_error (probe q)"
          proof (cases "q = port")
            case True
            then show ?thesis using Some \<open>cls e = OSError\<close> by (simp add: os_error_def)
          next
            case False
            with q have "port + 1 \<le> q \<and> q < p" by arith
            with ih(4) show ?thesis by blast
          qed
        qed
        have "[port..p] = port # [port + 1..p]" using ih(1) by (simp add: upto_rec1)
        with ih all show ?thesis by simp
      qed
    qed
  qed
qed

lemma loop_exhausted:
  "(fst (find_free_port_loop probe s port pr) = Inl NoFreePort) =
     (\<forall>q. port \<le> q \<and> q < s + 100 \<longrightarrow> os_error (probe q))"
proof (induction probe s port pr rule: find_free_port_loop.induct)
  case (1 probe s port pr)
  show ?case
  proof (cases "port < s + 100")
    case False
    then show ?thesis by (auto simp: loop_stop)
  next
    case lt: True
    show ?thesis
    proof (cases "probe port")
      case None
      then have "\<not> os_error (probe port)" by (simp add: os_error_def)
      moreover have "fst (find_free_port_loop probe s port pr) = Inr port"
        using lt None by (simp add: loop_bound)
      ultimately show ?thesis using lt by auto
    next
      case (Some e)
      show ?thesis
      proof (cases "cls e = OSError")
        case False
        then have "\<not> os_error (probe port)" using Some by (simp add: os_error_def)
        moreover have "fst (find_free_port_loop probe s port pr) = Inl (ProbeRaised e)"
          using lt Some False by (simp add: loop_raise)
        ultimately show ?thesis using lt by auto
      next
        case True
        have here: "os_error (probe port)" using Some True by (simp add: os_error_def)
        have "(fst (find_free_port_loop probe s port pr) = Inl NoFreePort) =
              (fst (find_free_port_loop probe s (port + 1) (pr @ [port])) = Inl NoFreePort)"
          using lt Some True by (simp add: loop_retry os_error_def)
        also have "\<dots> = (\<forall>q. port + 1 \<le> q \<and> q < s + 100 \<longrightarrow> os_error (probe q))"
          using "1.IH"[OF lt Some True] .
        also have "\<dots> = (\<forall>q. port \<le> q \<and> q < s + 100 \<longrightarrow> os_error (probe q))"
        proof
          assume r: "\<forall>q. port + 1 \<le> q \<and> q < s + 100 \<longrightarrow> os_error (probe q)"
          show "\<forall>q. port \<le> q \<and> q < s + 100 \<longrightarrow> os_error (probe q)"
          proof (intro allI impI)
            fix q assume q: "port \<le> q \<and> q < s + 100"
            show "os_error (probe q)"
            proof (cases "q = port")
              case True
              then show ?thesis using here by simp
            next
              case False
              with q have "port + 1 \<le> q \<and> q < s + 100" by arith
              with r show ?thesis by blast
            qed
          qed
        next
          assume l: "\<forall>q. port \<le> q \<and> q < s + 100 \<longrightarrow> os_error (probe q)"
          show "\<forall>q. port + 1 \<le> q \<and> q < s + 100 \<longrightarrow> os_error (probe q)"
          proof (intro allI impI)
            fix q assume "port + 1 \<le> q \<and> q < s + 100"
            then have "port \<le> q \<and> q < s + 100" by arith
            with l show "os_error (probe q)" by blast
          qed
        qed
        finally show ?thesis .
      qed
    qed
  qed
qed

lemma loop_probed:
  "set (snd (find_free_port_loop probe s port pr)) \<subseteq> set pr \<union> {port..<s + 100}"
proof (induction probe s port pr rule: find_free_port_loop.induct)
  case (1 probe s port pr)
  show ?case
  proof (cases "port < s + 100")
    case False
    then show ?thesis by (simp add: loop_stop)
  next
    case lt: True
    show ?thesis
    proof (cases "probe port")
      case None
      with lt show ?thesis by (auto simp: loop_bound)
    next
      case (Some e)
      show ?thesis
      proof (cases "cls e = OSError")
        case False
        with lt Some show ?thesis by (auto simp: loop_raise)
      next
        case True
        from "1.IH"[OF lt Some True]
        have a: "set (snd (find_free_port_loop probe s (port + 1) (pr @ [port])))
                \<subseteq> set (pr @ [port]) \<union> {port + 1..<s + 100}" .
        have b: "set (pr @ [port]) \<union> {port + 1..<s + 100} \<subseteq> set pr \<union> {port..<s + 100}"
          using lt by auto
        have c: "find_free_port_loop probe s port pr =
                       find_free_port_loop probe s (port + 1) (pr @ [port])"
          using lt Some True by (simp add: loop_retry os_error_def)
        show ?thesis unfolding c by (rule subset_trans[OF a b])
      qed
    qed
  qed
qed


subsection \<open>The claims about the port search\<close>

text \<open>
  Claim C5. For every starting port \<open>s\<close>: when \<open>find_free_port\<close> returns a port
  \<open>p\<close>, then \<open>p \<ge> s\<close>, the probe of \<open>p\<close> succeeded, and every port \<open>q\<close> with
  \<open>s \<le> q < p\<close> was probed and its probe failed with an \<open>OSError\<close>. The ports probed
  are exactly \<open>s, \<dots>, p\<close>, in this order, and \<open>p\<close> lies within the 100 candidates.
\<close>

theorem find_free_port_first_bindable:
  assumes "find_free_port probe s = (Inr p, probed)"
  shows "s \<le> p \<and> p < s + 100 \<and> probe p = None \<and> probed = [s..p] \<and>
         (\<forall>q. s \<le> q \<and> q < p \<longrightarrow> q \<in> set probed \<and> os_error (probe q))"
proof -
  from assms have "find_free_port_loop probe s s [] = (Inr p, probed)"
    by (simp add: find_free_port_def)
  from loop_found[OF this]
  have f: "s \<le> p" "p < s + 100" "probe p = None"
    "\<forall>q. s \<le> q \<and> q < p \<longrightarrow> os_error (probe q)" "probed = [s..p]"
    by simp_all
  have "\<forall>q. s \<le> q \<and> q < p \<longrightarrow> q \<in> set probed" using f(5) by simp
  with f show ?thesis by blast
qed

theorem find_free_port_first_bindable_witness:
  "find_free_port (\<lambda>q. if q < 8082 then Some (Exc OSError ''Address already in use'') else None) 8080
     = (Inr 8082, [8080, 8081, 8082]) \<and>
   (8080::int) \<le> 8082 \<and>
   os_error (if (8080::int) < 8082 then Some (Exc OSError ''Address already in use'') else None) \<and>
   os_error (if (8081::int) < 8082 then Some (Exc OSError ''Address already in use'') else None) \<and>
   (8081::int) \<in> set [8080, 8081, 8082]"
proof -
  let ?probe = "\<lambda>q::int. if q < 8082 then Some (Exc OSError ''Address already in use'') else None"
  have run: "find_free_port ?probe 8080 = (Inr 8082, [8080, 8081, 8082])"
    by (simp add: find_free_port_def loop_retry loop_bound os_error_def)
  from find_free_port_first_bindable[OF run]
  have all: "\<forall>q. 8080 \<le> q \<and> q < 8082 \<longrightarrow> q \<in> set [8080, 8081, 8082] \<and> os_error (?probe q)"
    by blast
  from all[rule_format, of 8080] have a: "os_error (?probe 8080)" by simp
  from all[rule_format, of 8081] have b: "os_error (?probe 8081)" "8081 \<in> set [8080, 8081, 8082::int]"
    by simp_all
  from run a b show ?thesis by simp
qed

text \<open>
  A probe that raises anything but an \<open>OSError\<close> ends the search with that exception:
  binding a port above 65535 raises \<open>OverflowError\<close>, which leaves the function.
\<close>

lemma loop_propagates:
  "port \<le> p \<Longrightarrow> p < s + 100 \<Longrightarrow> \<forall>q. port \<le> q \<and> q < p \<longrightarrow> os_error (probe q) \<Longrightarrow>
   probe p = Some e \<Longrightarrow> cls e \<noteq> OSError \<Longrightarrow>
   fst (find_free_port_loop probe s port pr) = Inl (ProbeRaised e)"
proof (induction "nat (p - port)" arbitrary: port pr)
  case 0
  then have "port = p" by simp
  with 0 show ?case by (simp add: loop_raise)
next
  case (Suc n)
  then have lt: "port < p" by simp
  with Suc.prems have here: "os_error (probe port)" "port < s + 100" by auto
  have "fst (find_free_port_loop probe s (port + 1) (pr @ [port])) = Inl (ProbeRaised e)"
  proof (rule Suc.hyps(1))
    show "n = nat (p - (port + 1))" using Suc.hyps(2) by simp
    show "port + 1 \<le> p" using lt by simp
    show "\<forall>q. port + 1 \<le> q \<and> q < p \<longrightarrow> os_error (probe q)" using Suc.prems(3) by simp
  qed (use Suc.prems in auto)
  with here show ?case by (simp add: loop_retry)
qed

lemma all_candidates_fail_iff:
  "all_candidates_fail probe s = (\<forall>q. s \<le> q \<and> q < s + 100 \<longrightarrow> bind_fails (probe q))"
  by (auto simp: all_candidates_fail_def list_all_iff)

text \<open>
  Claim C6 as stated, with any failure to bind, fails. Started at 65500 on the busy host, the
  search finds ports 65500 to 65535 taken and the probe of 65536 raises
  \<open>OverflowError\<close>: every one of the 100 candidates fails to bind, and the function raises
  the \<open>OverflowError\<close>, not the port-exhaustion error.
\<close>

theorem find_free_port_overflow_not_exhaustion:
  "all_candidates_fail busy_host 65500 \<and>
   fst (find_free_port busy_host 65500) = Inl (ProbeRaised (Exc OverflowError ''bind(): port must be 0-65535.'')) \<and>
   fst (find_free_port busy_host 65500) \<noteq> Inl NoFreePort"
proof -
  have a: "all_candidates_fail busy_host 65500"
    by (simp add: all_candidates_fail_iff bind_fails_def busy_host_def)
  have "fst (find_free_port_loop busy_host 65500 65500 []) =
          Inl (ProbeRaised (Exc OverflowError ''bind(): port must be 0-65535.''))"
    by (rule loop_propagates[where p = 65536]) (simp_all add: busy_host_def os_error_def)
  then have b: "fst (find_free_port busy_host 65500) =
          Inl (ProbeRaised (Exc OverflowError ''bind(): port must be 0-65535.''))"
    by (simp add: find_free_port_def)
  from a b show ?thesis by simp
qed

text \<open>
  Claim C6, amended. For every starting port \<open>s\<close>: \<open>find_free_port\<close> raises the
  port-exhaustion error, \<open>RuntimeError("Could not find a free port")\<close>, if and only if
  the probe of every one of the 100 candidate ports \<open>s, \<dots>, s + 99\<close> raises an
  \<open>OSError\<close>, the failure the loop catches; it never probes a port below \<open>s\<close> or at or
  above \<open>s + 100\<close>; and when the probes of \<open>s, \<dots>, p - 1\<close> raise \<open>OSError\<close> and the
  probe of a candidate \<open>p\<close> raises an exception of another class, the function raises
  that exception.
\<close>

theorem find_free_port_exhausted_iff:
  "(fst (find_free_port probe s) = Inl NoFreePort \<longleftrightarrow>
      (\<forall>q. s \<le> q \<and> q < s + 100 \<longrightarrow> os_error (probe q))) \<and>
   (\<forall>q \<in> set (snd (find_free_port probe s)). s \<le> q \<and> q < s + 100) \<and>
   raised NoFreePort = Exc RuntimeError ''Could not find a free port'' \<and>
   (s \<le> p \<and> p < s + 100 \<and> (\<forall>q. s \<le> q \<and> q < p \<longrightarrow> os_error (probe q)) \<and>
      probe p = Some e \<and> cls e \<noteq> OSError \<longrightarrow>
      fst (find_free_port probe s) = Inl (ProbeRaised e) \<and> raised (ProbeRaised e) = e)"
proof (intro conjI)
  show "fst (find_free_port probe s) = Inl NoFreePort \<longleftrightarrow>
      (\<forall>q. s \<le> q \<and> q < s + 100 \<longrightarrow> os_error (probe q))"
    unfolding find_free_port_def by (rule loop_exhausted)
  show "\<forall>q \<in> set (snd (find_free_port probe s)). s \<le> q \<and> q < s + 100"
    using loop_probed[of probe s s "[]"] unfolding find_free_port_def by auto
  show "raised NoFreePort = Exc RuntimeError ''Could not find a free port''" by simp
  show "s \<le> p \<and> p < s + 100 \<and> (\<forall>q. s \<le> q \<and> q < p \<longrightarrow> os_error (probe q)) \<and>
      probe p = Some e \<and> cls e \<noteq> OSError \<longrightarrow>
      fst (find_free_port probe s) = Inl (ProbeRaised e) \<and> raised (ProbeRaised e) = e"
    using loop_propagates[where port = s and p = p and s = s and probe = probe and e = e
        and pr = "[]"]
    by (auto simp: find_free_port_def)
qed

theorem find_free_port_exhausted_iff_witness:
  "fst (find_free_port (\<lambda>q. Some (Exc OSError ''Address already in use'')) 8080) = Inl NoFreePort \<and>
   fst (find_free_port (\<lambda>q. if q = 8179 then None else Some (Exc OSError ''Address already in use'')) 8080)
     \<noteq> Inl NoFreePort \<and>
   fst (find_free_port busy_host 65500) = Inl (ProbeRaised (Exc OverflowError ''bind(): port must be 0-65535.''))"
proof (intro conjI)
  show "fst (find_free_port (\<lambda>q. Some (Exc OSError ''Address already in use'')) 8080) = Inl NoFreePort"
    using find_free_port_exhausted_iff[of "\<lambda>q. Some (Exc OSError ''Address already in use'')" 8080]
    by (simp add: os_error_def)
next
  let ?probe = "\<lambda>q::int. if q = 8179 then None else Some (Exc OSError ''Address already in use'')"
  have "\<not> (\<forall>q. 8080 \<le> q \<and> q < 8080 + 100 \<longrightarrow> os_error (?probe q))"
  proof
    assume a: "\<forall>q. 8080 \<le> q \<and> q < 8080 + 100 \<longrightarrow> os_error (?probe q)"
    from a[rule_format, of 8179] have "os_error (?probe 8179)" by simp
    then show False by (simp add: os_error_def)
  qed
  with find_free_port_exhausted_iff[of ?probe 8080]
  show "fst (find_free_port ?probe 8080) \<noteq> Inl NoFreePort" by blast
next
  have "\<forall>q. 65500 \<le> q \<and> q < 65536 \<longrightarrow> os_error (busy_host q)"
    by (simp add: busy_host_def os_error_def)
  moreover have "busy_host 65536 = Some (Exc OverflowError ''bind(): port must be 0-65535.'')"
    by (simp add: busy_host_def)
  ultimately show "fst (find_free_port busy_host 65500) =
      Inl (ProbeRaised (Exc OverflowError ''bind(): port must be 0-65535.''))"
    using find_free_port_exhausted_iff[of busy_host 65500 65536
        "Exc OverflowError ''bind(): port must be 0-65535.''"]
    by simp
qed

text \<open>
  When the probes of \<open>s, \<dots>, p - 1\<close> raise \<open>OSError\<close> and the probe of \<open>p\<close>, one of
  the 100 candidates, raises an exception of another class, \<open>find_free_port\<close> raises
  that exception.
\<close>

theorem find_free_port_propagates:
  assumes "s \<le> p" and "p < s + 100" and "\<forall>q. s \<le> q \<and> q < p \<longrightarrow> os_error (probe q)"
    and "probe p = Some e" and "cls e \<noteq> OSError"
  shows "fst (find_free_port probe s) = Inl (ProbeRaised e)"
  using assms by (simp add: find_free_port_def loop_propagates)

theorem find_free_port_propagates_witness:
  "fst (find_free_port
     (\<lambda>q. if q \<le> 65535 then Some (Exc OSError ''[Errno 98] Address already in use'')
          else Some (Exc OverflowError ''bind(): port must be 0-65535.'')) 65500)
     = Inl (ProbeRaised (Exc OverflowError ''bind(): port must be 0-65535.''))"
  using find_free_port_propagates[of 65500 65536
      "\<lambda>q. if q \<le> 65535 then Some (Exc OSError ''[Errno 98] Address already in use'')
          else Some (Exc OverflowError ''bind(): port must be 0-65535.'')"
      "Exc OverflowError ''bind(): port must be 0-65535.''"]
  by (simp add: os_error_def)

section \<open>Properties of \<open>main\<close>\<close>

lemma find_free_port_free: "probe s = None \<Longrightarrow> find_free_port probe s = (Inr s, [s])"
  by (simp add: find_free_port_def loop_bound)

lemma find_free_port_all_busy:
  "(\<And>q. os_error (probe q)) \<Longrightarrow> fst (find_free_port probe s) = Inl NoFreePort"
  by (simp add: find_free_port_def loop_exhausted)

text \<open>
  Claim C7. When the body of \<open>main\<close> ends in a keyboard interrupt, the process prints the
  shutdown message and ends with status 0. When it ends in any other exception, an
  instance of \<open>Exception\<close>, the process prints a one-line message that starts with the
  cross-mark symbol and carries the text of the exception, and exits with status 1; the
  port-exhaustion error of \<open>find_free_port\<close> is such an exception.
\<close>

theorem main_exit_status:
  "(main_try e = (out, Some x) \<and> cls x = KeyboardInterrupt \<longrightarrow>
      main e = (out @ [CHR 0x0A # stop_sign @ '' Server stopped by user''], Returned) \<and>
      exit_status (snd (main e)) = 0) \<and>
   (main_try e = (out, Some x) \<and> is_Exception (cls x) \<longrightarrow>
      main e = (out @ [cross_mark @ '' Error starting server: '' @ msg x], Exited 1) \<and>
      exit_status (snd (main e)) = 1) \<and>
   (fst (find_free_port (port_probe e) 8080) = Inl NoFreePort \<longrightarrow>
      main e = ([cross_mark @ '' Error starting server: Could not find a free port''], Exited 1) \<and>
      exit_status (snd (main e)) = 1)"
proof (intro conjI impI)
  assume a: "main_try e = (out, Some x) \<and> cls x = KeyboardInterrupt"
  then show "main e = (out @ [CHR 0x0A # stop_sign @ '' Server stopped by user''], Returned)"
    by (simp add: main_def)
  then show "exit_status (snd (main e)) = 0" by simp
next
  assume a: "main_try e = (out, Some x) \<and> is_Exception (cls x)"
  then have "cls x \<noteq> KeyboardInterrupt" by auto
  with a show "main e = (out @ [cross_mark @ '' Error starting server: '' @ msg x], Exited 1)"
    by (simp add: main_def)
  then show "exit_status (snd (main e)) = 1" by simp
next
  assume a: "fst (find_free_port (port_probe e) 8080) = Inl NoFreePort"
  then have "main_try e = ([], Some (Exc RuntimeError ''Could not find a free port''))"
    by (simp add: main_try_def)
  then show "main e = ([cross_mark @ '' Error starting server: Could not find a free port''], Exited 1)"
    by (simp add: main_def)
  then show "exit_status (snd (main e)) = 1" by simp
qed

theorem main_exit_status_witness:
  "main \<lparr>port_probe = (\<lambda>q. None), os_chdir = None, TCPServer = (\<lambda>p. None),
          serve_forever = Some (Exc KeyboardInterrupt '''')\<rparr>
     = (banner 8080 @ [CHR 0x0A # stop_sign @ '' Server stopped by user''], Returned) \<and>
   main \<lparr>port_probe = (\<lambda>q. None), os_chdir = None,
          TCPServer = (\<lambda>p. Some (Exc OSError ''[Errno 98] Address already in use'')),
          serve_forever = None\<rparr>
     = (banner 8080 @ [cross_mark @ '' Error starting server: [Errno 98] Address already in use''],
        Exited 1) \<and>
   main \<lparr>port_probe = (\<lambda>q. Some (Exc OSError ''[Errno 98] Address already in use'')),
          os_chdir = None, TCPServer = (\<lambda>p. None), serve_forever = None\<rparr>
     = ([cross_mark @ '' Error starting server: Could not find a free port''], Exited 1)"
proof (intro conjI)
  let ?e1 = "\<lparr>port_probe = (\<lambda>q. None), os_chdir = None, TCPServer = (\<lambda>p. None),
          serve_forever = Some (Exc KeyboardInterrupt '''')\<rparr>"
  have "main_try ?e1 = (banner 8080, Some (Exc KeyboardInterrupt ''''))"
    by (simp add: main_try_def find_free_port_free)
  with main_exit_status[of ?e1 "banner 8080" "Exc KeyboardInterrupt ''''"]
  show "main ?e1 = (banner 8080 @ [CHR 0x0A # stop_sign @ '' Server stopped by user''], Returned)"
    by simp
next
  let ?e2 = "\<lparr>port_probe = (\<lambda>q. None), os_chdir = None,
          TCPServer = (\<lambda>p. Some (Exc OSError ''[Errno 98] Address already in use'')),
          serve_forever = None\<rparr>"
  have "main_try ?e2 = (banner 8080, Some (Exc OSError ''[Errno 98] Address already in use''))"
    by (simp add: main_try_def find_free_port_free)
  with main_exit_status[of ?e2 "banner 8080" "Exc OSError ''[Errno 98] Address already in use''"]
  show "main ?e2 = (banner 8080 @ [cross_mark @ '' Error starting server: [Errno 98] Address already in use''],
        Exited 1)"
    by simp
next
  let ?e3 = "\<lparr>port_probe = (\<lambda>q. Some (Exc OSError ''[Errno 98] Address already in use'')),
          os_chdir = None, TCPServer = (\<lambda>p. None), serve_forever = None\<rparr>"
  have "fst (find_free_port (port_probe ?e3) 8080) = Inl NoFreePort"
    by (simp add: find_free_port_all_busy os_error_def)
  with main_exit_status[of ?e3 "[]" "Exc OSError []"]
  show "main ?e3 = ([cross_mark @ '' Error starting server: Could not find a free port''], Exited 1)"
    by simp
qed

section \<open>Properties of the screenshot script\<close>

lemma exec_calls_all_ok:
  "(\<forall>c \<in> set cs. raises c = None) \<Longrightarrow> exec_calls raises cs = (cs, None)"
  by (induction cs) auto

text \<open>
  Claim C8 as stated, with a full-page screenshot, fails: \<open>run\<close> calls
  \<open>page.screenshot\<close> with the path alone, so the capture is of the visible viewport.
\<close>

theorem run_not_full_page:
  "map effect_of (fst (exec_calls (\<lambda>c. None) run)) \<noteq> claimed_effects"
  by (simp add: run_def claimed_effects_def)

lemma exec_calls_raise:
  "(\<forall>d \<in> set pre. raises d = None) \<Longrightarrow> raises c = Some x \<Longrightarrow>
   exec_calls raises (pre @ c # post) = (pre @ [c], Some x)"
  by (induction pre) auto

text \<open>
  Claim C8, amended. The script executes the fixed linear sequence: launch a headless
  browser, open a new page, set the viewport to 375 by 667, navigate to
  \<open>http://localhost:5173/\<close>, capture a screenshot of the visible viewport (not of the full
  page) to the fixed output path, then close the browser. When no call raises, all six calls
  are made in this order; a call that raises ends the sequence there: the calls before it
  and the call itself have been made, no later call is, and the exception leaves the
  script.
\<close>

theorem run_sequence:
  "((\<forall>c \<in> set run. raises c = None) \<longrightarrow> exec_calls raises run = (run, None)) \<and>
   (run = pre @ c # post \<and> (\<forall>d \<in> set pre. raises d = None) \<and> raises c = Some x \<longrightarrow>
      exec_calls raises run = (pre @ [c], Some x)) \<and>
   map effect_of run =
     [LaunchBrowser True, OpenPage, SetViewport 375 667, Navigate ''http://localhost:5173/'',
      Capture ''jules-scratch/verification/compact_ui_verification.png'' False, CloseBrowser]"
proof (intro conjI impI)
  assume "\<forall>c \<in> set run. raises c = None"
  then show "exec_calls raises run = (run, None)" by (rule exec_calls_all_ok)
next
  assume a: "run = pre @ c # post \<and> (\<forall>d \<in> set pre. raises d = None) \<and> raises c = Some x"
  then have r: "run = pre @ c # post" and n: "\<forall>d \<in> set pre. raises d = None"
    and x: "raises c = Some x" by simp_all
  show "exec_calls raises run = (pre @ [c], Some x)"
    unfolding r by (rule exec_calls_raise[OF n x])
next
  show "map effect_of run =
     [LaunchBrowser True, OpenPage, SetViewport 375 667, Navigate ''http://localhost:5173/'',
      Capture ''jules-scratch/verification/compact_ui_verification.png'' False, CloseBrowser]"
    by (simp add: run_def)
qed

theorem run_sequence_witness:
  "exec_calls (\<lambda>c. None) run = (run, None) \<and>
   map effect_of (fst (exec_calls (\<lambda>c. None) run)) =
     [LaunchBrowser True, OpenPage, SetViewport 375 667, Navigate ''http://localhost:5173/'',
      Capture ''jules-scratch/verification/compact_ui_verification.png'' False, CloseBrowser] \<and>
   exec_calls (\<lambda>c. if c = goto ''http://localhost:5173/''
                     then Some (Exc PlaywrightError ''net::ERR_CONNECTION_REFUSED'') else None) run =
     ([launch None, new_page, set_viewport_size 375 667, goto ''http://localhost:5173/''],
      Some (Exc PlaywrightError ''net::ERR_CONNECTION_REFUSED''))"
proof -
  let ?r = "\<lambda>c. if c = goto ''http://localhost:5173/''
                     then Some (Exc PlaywrightError ''net::ERR_CONNECTION_REFUSED'') else None"
  have ok: "exec_calls (\<lambda>c. None) run = (run, None)"
    using run_sequence[of "\<lambda>c. None"] by simp
  have eff: "map effect_of run =
     [LaunchBrowser True, OpenPage, SetViewport 375 667, Navigate ''http://localhost:5173/'',
      Capture ''jules-scratch/verification/compact_ui_verification.png'' False, CloseBrowser]"
    using run_sequence[of "\<lambda>c. None"] by simp
  have split: "run = [launch None, new_page, set_viewport_size 375 667] @
      goto ''http://localhost:5173/'' #
      [screenshot ''jules-scratch/verification/compact_ui_verification.png'' None, close]"
    by (simp add: run_def)
  have "exec_calls ?r run =
      ([launch None, new_page, set_viewport_size 375 667] @ [goto ''http://localhost:5173/''],
       Some (Exc PlaywrightError ''net::ERR_CONNECTION_REFUSED''))"
    using run_sequence[of ?r "[launch None, new_page, set_viewport_size 375 667]"
        "goto ''http://localhost:5173/''"
        "[screenshot ''jules-scratch/verification/compact_ui_verification.png'' None, close]"
        "Exc PlaywrightError ''net::ERR_CONNECTION_REFUSED''"] split
    by simp
  with ok eff show ?thesis by simp
qed


end
